theory Spec2Isabelle
  imports Complex_Main "HOL-Library.Sublist" "HOL-Library.Multiset"
begin

section \<open>Chat with your PDF: the retrieval-augmented generation pipeline of app.py\<close>

text \<open>
  The development embeds the class \<open>RAGSystem\<close> of \<^verbatim>\<open>src/app.py\<close> and the part of the
  Streamlit script that consumes its answers.

  Conventions of the embedding.
  \<^item> A Python \<open>str\<close> is a \<open>string\<close>; one \<open>char\<close> stands for one code point below 256.
    Concatenation, \<open>join\<close> and the search for the ASCII tags do not depend on the alphabet.
  \<^item> A Python \<open>float\<close> is the real number it denotes. On finite non-negative floats
    \<open>x // 60\<close> and \<open>x % 60\<close> are computed without rounding (through \<open>fmod\<close>), so the real
    operations below give the same digits.
  \<^item> The embedding model, the collection of the vector store and the language model are
    objects of other libraries. They are fields of the system, given as functions that
    return a result or the exception they raise.
  \<^item> A generator is run to its end, as the \<open>for\<close> loop of the script does: the model records
    the values it yields in order, how it ends (a \<open>return\<close> value or an exception) and the
    calls it makes to its collaborators.
\<close>

subsection \<open>Python primitives\<close>

definition nl :: string where
  "nl = [CHR 0x0A]"

definition dq :: string where
  "dq = [CHR 0x22]"

definition tq :: string where
  "tq = [CHR 0x27, CHR 0x27, CHR 0x27]"

definition digit_char :: "nat \<Rightarrow> char" where
  "digit_char d = ''0123456789'' ! d"

text \<open>\<open>str(n)\<close> for an integer: the decimal digits, with a minus sign when negative.\<close>

function str_nat :: "nat \<Rightarrow> string" where
  "str_nat n = (if n < 10 then [digit_char n] else str_nat (n div 10) @ [digit_char (n mod 10)])"
  by pat_completeness auto
termination
  by (relation "measure id") auto

definition str_int :: "int \<Rightarrow> string" where
  "str_int i = (if i < 0 then CHR ''-'' # str_nat (nat (- i)) else str_nat (nat i))"

text \<open>\<open>x // y\<close> and \<open>x % y\<close> on floats with \<open>y > 0\<close>, and \<open>int(x)\<close>, which truncates towards zero.\<close>

definition py_floordiv :: "real \<Rightarrow> real \<Rightarrow> real" where
  "py_floordiv x y = of_int \<lfloor>x / y\<rfloor>"

definition py_mod :: "real \<Rightarrow> real \<Rightarrow> real" where
  "py_mod x y = x - y * of_int \<lfloor>x / y\<rfloor>"

definition py_int :: "real \<Rightarrow> int" where
  "py_int x = (if 0 \<le> x then \<lfloor>x\<rfloor> else \<lceil>x\<rceil>)"

text \<open>\<open>sep.join(xs)\<close>.\<close>

fun str_join :: "string \<Rightarrow> string list \<Rightarrow> string" where
  "str_join sep [] = []"
| "str_join sep [x] = x"
| "str_join sep (x # y # ys) = x @ sep @ str_join sep (y # ys)"

text \<open>\<open>s.strip()\<close>: the characters for which \<open>str.isspace\<close> holds are removed at both ends.\<close>

definition isspace :: "char \<Rightarrow> bool" where
  "isspace c \<longleftrightarrow> c \<in> set [CHR 0x09, CHR 0x0A, CHR 0x0B, CHR 0x0C, CHR 0x0D, CHR 0x1C,
     CHR 0x1D, CHR 0x1E, CHR 0x1F, CHR 0x20, CHR 0x85, CHR 0xA0]"

definition strip :: "string \<Rightarrow> string" where
  "strip s = rev (dropWhile isspace (rev (dropWhile isspace s)))"

subsection \<open>Exceptions\<close>

text \<open>
  \<open>ValueError\<close> is raised by the constructor, \<open>NameError\<close> by the read of an unbound
  script variable; \<open>LibraryError\<close> stands for any exception of a collaborator. All carry
  the message that \<open>str(e)\<close> prints.
\<close>

datatype error = ValueError string | NameError string | LibraryError string

fun str_error :: "error \<Rightarrow> string" where
  "str_error (ValueError m) = m"
| "str_error (NameError m) = m"
| "str_error (LibraryError m) = m"

subsection \<open>The collaborators and the system object\<close>

text \<open>
  \<open>OllamaLLM\<close>: \<open>get_num_tokens(prompt)\<close> and \<open>stream(prompt)\<close>. A stream is finite: the
  fragments it produces, then normal exhaustion (\<open>None\<close>) or an exception.
\<close>

record llm =
  get_num_tokens :: "string \<Rightarrow> error + int"
  stream :: "string \<Rightarrow> string list \<times> error option"

text \<open>
  The dictionary returned by \<open>collection.query\<close>, read only at the key \<open>documents\<close>: one
  list of texts for each query embedding, or \<open>None\<close>.
\<close>

record query_result =
  documents :: "string list list option"

record 'v RAGSystem =
  collection_name :: string
  db_path :: string
  ollama_llm :: llm
  n_results :: int
  embedding_model :: "string \<Rightarrow> error + 'v"
  collection :: "'v list \<Rightarrow> int \<Rightarrow> error + query_result"

text \<open>
  What the constructor calls: the constructors of the three library objects, the method
  \<open>get_or_create_collection\<close> of the client (a client is identified with that method), and
  the set-up of the log file, which may fail.
\<close>

record 'v world =
  OllamaLLM :: "string \<Rightarrow> error + llm"
  setup_logging :: "error option"
  OllamaEmbeddings :: "string \<Rightarrow> error + (string \<Rightarrow> error + 'v)"
  PersistentClient :: "string \<Rightarrow> error + (string \<Rightarrow> error + ('v list \<Rightarrow> int \<Rightarrow> error + query_result))"

datatype init_call =
    Init_OllamaLLM string
  | Init_setup_logging
  | Init_OllamaEmbeddings string
  | Init_PersistentClient string
  | Init_get_or_create_collection string
  | Init_logger_info string

subsection \<open>\<open>RAGSystem.__init__\<close>\<close>

definition RAGSystem_init ::
  "'v world \<Rightarrow> string \<Rightarrow> string \<Rightarrow> string \<Rightarrow> int \<Rightarrow> (error + 'v RAGSystem) \<times> init_call list" where
  "RAGSystem_init w cname dbp ollama_model n =
     (case OllamaLLM w ollama_model of
        Inl e \<Rightarrow> (Inl e, [Init_OllamaLLM ollama_model])
      | Inr l \<Rightarrow>
          if cname = [] then
            (Inl (ValueError (CHR 0x27 # ''collection_name'' @ CHR 0x27 # '' parameter is required.'')),
             [Init_OllamaLLM ollama_model])
          else
            (case setup_logging w of
               Some e \<Rightarrow> (Inl e, [Init_OllamaLLM ollama_model, Init_setup_logging])
             | None \<Rightarrow>
                 (case OllamaEmbeddings w ''mxbai-embed-large:latest'' of
                    Inl e \<Rightarrow>
                      (Inl e, [Init_OllamaLLM ollama_model, Init_setup_logging,
                               Init_OllamaEmbeddings ''mxbai-embed-large:latest''])
                  | Inr em \<Rightarrow>
                      (case PersistentClient w dbp of
                         Inl e \<Rightarrow>
                           (Inl e, [Init_OllamaLLM ollama_model, Init_setup_logging,
                                    Init_OllamaEmbeddings ''mxbai-embed-large:latest'',
                                    Init_PersistentClient dbp])
                       | Inr client \<Rightarrow>
                           (case client cname of
                              Inl e \<Rightarrow>
                                (Inl e, [Init_OllamaLLM ollama_model, Init_setup_logging,
                                         Init_OllamaEmbeddings ''mxbai-embed-large:latest'',
                                         Init_PersistentClient dbp,
                                         Init_get_or_create_collection cname])
                            | Inr coll \<Rightarrow>
                                (Inr \<lparr>collection_name = cname, db_path = dbp, ollama_llm = l,
                                      n_results = n, embedding_model = em, collection = coll\<rparr>,
                                 [Init_OllamaLLM ollama_model, Init_setup_logging,
                                  Init_OllamaEmbeddings ''mxbai-embed-large:latest'',
                                  Init_PersistentClient dbp,
                                  Init_get_or_create_collection cname,
                                  Init_logger_info ''*** RAGSystem initialized ***'']))))))"

subsection \<open>\<open>RAGSystem._format_time\<close>\<close>

definition format_time :: "real \<Rightarrow> string" where
  "format_time response_time =
     (let minutes = py_floordiv response_time 60;
          seconds = py_mod response_time 60
      in if minutes \<noteq> 0
         then str_int (py_int minutes) @ ''m '' @ str_int (py_int seconds) @ ''s''
         else ''Time: '' @ str_int (py_int seconds) @ ''s'')"

subsection \<open>\<open>RAGSystem._retrieve\<close>\<close>

datatype 'v call =
    Call_embed_query string
  | Call_collection_query "'v list" int
  | Call_logger_info string
  | Call_get_num_tokens string
  | Call_stream string

text \<open>
  \<open>not results['documents']\<close> holds for \<open>None\<close> and for the empty list; otherwise the
  first element is returned as it is.
\<close>

definition retrieve :: "'v RAGSystem \<Rightarrow> string \<Rightarrow> (error + string list) \<times> 'v call list" where
  "retrieve self user_text =
     (case embedding_model self user_text of
        Inl e \<Rightarrow> (Inl e, [Call_embed_query user_text])
      | Inr embedding \<Rightarrow>
          (case collection self [embedding] (n_results self) of
             Inl e \<Rightarrow>
               (Inl e, [Call_embed_query user_text,
                        Call_collection_query [embedding] (n_results self)])
           | Inr results \<Rightarrow>
               (case documents results of
                  None \<Rightarrow> Inr []
                | Some [] \<Rightarrow> Inr []
                | Some (d # ds) \<Rightarrow> Inr d,
                [Call_embed_query user_text,
                 Call_collection_query [embedding] (n_results self)])))"

subsection \<open>\<open>RAGSystem.generate_response\<close>\<close>

text \<open>The f-string of lines 152 to 170, with its indentation and trailing blanks.\<close>

definition prompt_template :: "string \<Rightarrow> string \<Rightarrow> string" where
  "prompt_template context query =
     nl @
     ''        You are an AI assistant specialized in answering questions based **only** on the provided context.  '' @ nl @
     ''        The context is structured with sections separated by `-----`.  '' @ nl @
     nl @
     ''        ### **Context:**  '' @ nl @
     ''        '' @ tq @ ''  '' @ nl @
     ''        '' @ context @ ''  '' @ nl @
     ''        '' @ tq @ ''  '' @ nl @
     nl @
     ''        ### **Question:**  '' @ nl @
     ''        '' @ dq @ query @ dq @ ''  '' @ nl @
     nl @
     ''        ### **Instructions:**  '' @ nl @
     ''        - Answer concisely and accurately using only the given context.  '' @ nl @
     ''        - Put what you find from the context without summarizing.'' @ nl @
     ''        - If the answer is unclear or missing, state: '' @ dq @
       ''The provided context does not contain enough information.'' @ dq @ ''  '' @ nl @
     nl @
     ''        ### **Answer:**'' @ nl @
     ''        ''"

text \<open>
  What a run of the generator yields: a string, or the tuple of the token count and the
  formatted time. \<open>isinstance(chunk, tuple)\<close> is the test of the consumer.
\<close>

datatype yielded = YStr (the_str: string) | YTuple (token_count_of: int) (time_of: string)

fun isinstance_tuple :: "yielded \<Rightarrow> bool" where
  "isinstance_tuple (YTuple n s) = True"
| "isinstance_tuple (YStr s) = False"

fun isinstance_str :: "yielded \<Rightarrow> bool" where
  "isinstance_str (YStr s) = True"
| "isinstance_str (YTuple n s) = False"

text \<open>
  How a run ends: \<open>Returned v\<close> when the body returns (\<open>v\<close> is the value carried by
  \<open>StopIteration\<close>, which a \<open>for\<close> loop drops), \<open>Raised e\<close> when it raises.
\<close>

datatype outcome = Returned "string option" | Raised error

record 'v run =
  yields :: "yielded list"
  outcome :: outcome
  calls :: "'v call list"

text \<open>The loop of lines 176 to 179; the first argument is \<open>streamed_response\<close>.\<close>

fun stream_loop :: "string \<Rightarrow> string list \<Rightarrow> yielded list" where
  "stream_loop streamed_response [] = []"
| "stream_loop streamed_response (chunk # chunks) =
     YStr (streamed_response @ chunk) # stream_loop (streamed_response @ chunk) chunks"

text \<open>
  \<open>start_time\<close> and \<open>end_time\<close> are the two readings of \<open>time.time()\<close>. The function has a
  \<open>yield\<close> in its body, so it is a generator function and all of the body, the early
  \<open>return\<close> included, runs inside the generator.
\<close>

definition generate_response :: "'v RAGSystem \<Rightarrow> real \<Rightarrow> real \<Rightarrow> string \<Rightarrow> 'v run" where
  "generate_response self start_time end_time query =
     (case retrieve self query of
        (Inl e, cs) \<Rightarrow> \<lparr>yields = [], outcome = Raised e, calls = cs\<rparr>
      | (Inr retrieved_docs, cs) \<Rightarrow>
          if retrieved_docs = [] then
            \<lparr>yields = [], outcome = Returned (Some ''No relevant information found.''), calls = cs\<rparr>
          else
            (let context = str_join (nl @ ''-----'' @ nl) retrieved_docs;
                 prompt = prompt_template context query
             in case get_num_tokens (ollama_llm self) prompt of
                  Inl e \<Rightarrow>
                    \<lparr>yields = [], outcome = Raised e,
                     calls = cs @ [Call_logger_info prompt, Call_get_num_tokens prompt]\<rparr>
                | Inr token_count \<Rightarrow>
                    (case stream (ollama_llm self) prompt of
                       (chunks, Some e) \<Rightarrow>
                         \<lparr>yields = stream_loop [] chunks, outcome = Raised e,
                          calls = cs @ [Call_logger_info prompt, Call_get_num_tokens prompt,
                                        Call_stream prompt]\<rparr>
                     | (chunks, None) \<Rightarrow>
                         \<lparr>yields = stream_loop [] chunks @
                            [YTuple token_count (format_time (end_time - start_time))],
                          outcome = Returned None,
                          calls = cs @ [Call_logger_info prompt, Call_get_num_tokens prompt,
                                        Call_stream prompt]\<rparr>)))"

subsection \<open>\<open>remove_tags\<close>\<close>

text \<open>
  The substitution \<open>re.sub\<close> with the pattern: opening tag, any characters (newlines
  included, as few as possible), closing tag; replaced by the empty string. Scanning from
  the left, an opening tag that is followed somewhere by a closing tag is removed together
  with everything up to the first such closing tag, and the scan goes on behind it.
  \<open>find_close\<close> returns what follows the first closing tag, if there is one.
\<close>

fun find_close :: "string \<Rightarrow> string option" where
  "find_close [] = None"
| "find_close (c # cs) =
     (if prefix ''</think>'' (c # cs) then Some (drop 8 (c # cs)) else find_close cs)"

function sub_think :: "string \<Rightarrow> string" where
  "sub_think [] = []"
| "sub_think (c # cs) =
     (if prefix ''<think>'' (c # cs) then
        (case find_close (drop 7 (c # cs)) of
           Some rest \<Rightarrow> sub_think rest
         | None \<Rightarrow> c # sub_think cs)
      else c # sub_think cs)"
  by pat_completeness auto
termination
proof (relation "measure length")
  show "wf (measure length)" by simp
next
  fix c :: char and cs x2 :: string
  assume "find_close (drop 7 (c # cs)) = Some x2"
  moreover have "find_close s = Some r \<Longrightarrow> length r \<le> length s" for s r
    by (induction s) (auto split: if_splits)
  ultimately have "length x2 \<le> length (drop 7 (c # cs))" by blast
  then show "(x2, c # cs) \<in> measure length" by simp
qed simp_all

definition remove_tags :: "string \<Rightarrow> string" where
  "remove_tags text = strip (sub_think text)"

subsection \<open>The chat handler of the script (lines 333 to 359)\<close>

datatype ui_call =
    Placeholder_markdown string
  | St_write string
  | Messages_append string string
  | St_rerun

text \<open>
  The variables of the script that the loop assigns. \<open>token_count\<close> and \<open>response_time\<close>
  are bound together by the unpacking of the tuple, and unbound (\<open>None\<close>) before.
\<close>

record script_state =
  streamed_response :: string
  metadata :: "(int \<times> string) option"
  ui :: "ui_call list"

fun for_loop :: "yielded list \<Rightarrow> script_state \<Rightarrow> script_state" where
  "for_loop [] s = s"
| "for_loop (chunk # rest) s =
     for_loop rest
       (if isinstance_tuple chunk
        then s\<lparr>metadata := Some (token_count_of chunk, time_of chunk)\<rparr>
        else s\<lparr>streamed_response := the_str chunk,
               ui := ui s @ [Placeholder_markdown (the_str chunk)]\<rparr>)"

text \<open>The f-string of lines 348 to 353; the text argument is already post-processed.\<close>

definition response_template :: "string \<Rightarrow> int \<Rightarrow> string \<Rightarrow> string" where
  "response_template shown token_count response_time =
     nl @
     ''                '' @ shown @ nl @
     nl @
     ''                '' @ nl @ ''----'' @ nl @
     ''                Token Count: '' @ str_int token_count @ '' | Response Time: '' @
       response_time @ nl @
     ''                ''"

text \<open>
  The \<open>try\<close> block. An exception of the generator, and the \<open>NameError\<close> of line 346 when no
  tuple was received, both reach the \<open>except\<close> clause.
\<close>

definition assistant_block :: "'v run \<Rightarrow> ui_call list" where
  "assistant_block r =
     (let s = for_loop (yields r) \<lparr>streamed_response = [], metadata = None, ui = []\<rparr>
      in case outcome r of
           Raised e \<Rightarrow>
             ui s @ [Messages_append ''assistant'' (''Error: '' @ str_error e), St_rerun]
         | Returned v \<Rightarrow>
             (case metadata s of
                None \<Rightarrow>
                  ui s @ [Messages_append ''assistant''
                            (''Error: '' @ str_error (NameError
                               (''name '' @ CHR 0x27 # ''token_count'' @ CHR 0x27 # '' is not defined''))),
                          St_rerun]
              | Some (token_count, response_time) \<Rightarrow>
                  ui s @ [St_write (''Token Count: '' @ str_int token_count @
                                    '', Response Time: '' @ response_time),
                          Messages_append ''assistant''
                            (response_template (remove_tags (streamed_response s))
                               token_count response_time)]))"

subsection \<open>The vector store\<close>

text \<open>
  Modelled from the spec: the \<open>query\<close> operation of the vector store. The collection
  object comes from the Chroma library and its code is not part of the sources; section
  4.3 of the specification gives its contract: the \<open>k\<close> nearest chunks by a distance over
  the stored vectors, ordered by distance, ties broken by insertion order, and all of
  them when there are fewer than \<open>k\<close>. The distance is a parameter into any linear order.
  A collection is the list of its chunks in insertion order.
\<close>

record 'v chunk =
  chunk_text :: string
  chunk_vector :: 'v

definition store_query ::
  "('v \<Rightarrow> 'v \<Rightarrow> 'd::linorder) \<Rightarrow> 'v chunk list \<Rightarrow> 'v \<Rightarrow> nat \<Rightarrow> (string \<times> 'd) list" where
  "store_query distance chunks v k =
     take k (sort_key snd (map (\<lambda>c. (chunk_text c, distance v (chunk_vector c))) chunks))"

text \<open>
  Modelled from the spec: the collection object over such a store, in the shape
  \<open>_retrieve\<close> reads: for each query embedding the texts of its nearest chunks.
\<close>

definition store_collection ::
  "('v \<Rightarrow> 'v \<Rightarrow> 'd::linorder) \<Rightarrow> 'v chunk list \<Rightarrow> 'v list \<Rightarrow> int \<Rightarrow> error + query_result" where
  "store_collection distance chunks query_embeddings k =
     Inr \<lparr>documents =
            Some (map (\<lambda>v. map fst (store_query distance chunks v (nat k))) query_embeddings)\<rparr>"

subsection \<open>Concrete collaborators\<close>

text \<open>
  A system for running the pipeline on concrete inputs. Embeddings are natural numbers
  (the length of the text), the collection answers every query with the given texts, the
  language model counts characters and streams three fixed fragments, the first two of
  which hold a reasoning block.
\<close>

definition example_llm :: llm where
  "example_llm =
     \<lparr>get_num_tokens = (\<lambda>prompt. Inr (int (length prompt))),
      stream = (\<lambda>prompt. ([''<think>a'', ''</think> b'', ''c''], None))\<rparr>"

definition example_system :: "string list \<Rightarrow> nat RAGSystem" where
  "example_system docs =
     \<lparr>collection_name = ''pdf_content'', db_path = ''PDF_chroma_db'',
      ollama_llm = example_llm, n_results = 5,
      embedding_model = (\<lambda>text. Inr (length text)),
      collection = (\<lambda>query_embeddings k. Inr \<lparr>documents = Some [docs]\<rparr>)\<rparr>"

text \<open>The same system with an embedding model that cannot be reached.\<close>

definition unreachable_embedding_system :: "nat RAGSystem" where
  "unreachable_embedding_system =
     (example_system [''P1''])\<lparr>embedding_model := (\<lambda>text. Inl (LibraryError ''connection refused''))\<rparr>"

text \<open>A world in which every constructor succeeds, and a store of three chunks.\<close>

definition example_world :: "nat world" where
  "example_world =
     \<lparr>OllamaLLM = (\<lambda>model. Inr example_llm),
      setup_logging = None,
      OllamaEmbeddings = (\<lambda>model. Inr (\<lambda>text. Inr (length text))),
      PersistentClient = (\<lambda>path. Inr (\<lambda>name. Inr (\<lambda>query_embeddings k. Inr \<lparr>documents = Some [[]]\<rparr>)))\<rparr>"

definition abs_distance :: "nat \<Rightarrow> nat \<Rightarrow> nat" where
  "abs_distance a b = (if a < b then b - a else a - b)"

definition example_chunks :: "nat chunk list" where
  "example_chunks =
     [\<lparr>chunk_text = ''Paris is the capital of France.'', chunk_vector = 9\<rparr>,
      \<lparr>chunk_text = ''It is known for the Eiffel Tower.'', chunk_vector = 2\<rparr>,
      \<lparr>chunk_text = ''The Seine river runs through it.'', chunk_vector = 4\<rparr>]"

definition example_store_system :: "nat RAGSystem" where
  "example_store_system =
     (example_system [])\<lparr>collection := store_collection abs_distance example_chunks\<rparr>"

section \<open>Properties\<close>

declare str_nat.simps [simp del]

subsection \<open>Formatting of the elapsed time\<close>

lemma py_mod_60_range: "0 \<le> py_mod t 60 \<and> py_mod t 60 < 60"
  unfolding py_mod_def by linarith

lemma py_floordiv_60_zero_iff: "0 \<le> t \<Longrightarrow> py_floordiv t 60 = 0 \<longleftrightarrow> t < 60"
  unfolding py_floordiv_def by (simp add: floor_eq_iff)

text \<open>
  Claim C10. For every non-negative \<open>response_time\<close>, \<open>_format_time\<close> returns
  \<open>"{m}m {s}s"\<close> with \<open>m = floor(response_time / 60)\<close> and \<open>s = floor(response_time mod 60)\<close>
  when at least one full minute has elapsed, and \<open>"Time: {s}s"\<close> otherwise. The prefix
  \<open>Time:\<close> appears in the second case only, and there is no case for hours.
\<close>

theorem format_time_minutes_seconds:
  assumes "0 \<le> response_time"
  shows "format_time response_time =
     (if 60 \<le> response_time
      then str_int \<lfloor>response_time / 60\<rfloor> @ ''m '' @
           str_int \<lfloor>response_time - 60 * of_int \<lfloor>response_time / 60\<rfloor>\<rfloor> @ ''s''
      else ''Time: '' @ str_int \<lfloor>response_time - 60 * of_int \<lfloor>response_time / 60\<rfloor>\<rfloor> @ ''s'')"
proof -
  have m: "py_int (py_floordiv response_time 60) = \<lfloor>response_time / 60\<rfloor>"
    by (simp add: py_int_def py_floordiv_def)
  have s: "py_int (py_mod response_time 60) =
      \<lfloor>response_time - 60 * of_int \<lfloor>response_time / 60\<rfloor>\<rfloor>"
    using py_mod_60_range [of response_time] by (simp add: py_int_def) (simp add: py_mod_def)
  show ?thesis
    using py_floordiv_60_zero_iff [OF assms]
    by (simp add: format_time_def Let_def m s)
qed

text \<open>One hour, two minutes and five seconds are reported in minutes; 59.5 seconds as seconds.\<close>

theorem format_time_minutes_seconds_witness:
  "(0::real) \<le> 3725 \<and> format_time 3725 = ''62m 5s'' \<and>
   (0::real) \<le> 59.5 \<and> format_time 59.5 = ''Time: 59s''"
  using format_time_minutes_seconds [of 3725] format_time_minutes_seconds [of "59.5"]
  by (simp add: str_int_def str_nat.simps digit_char_def)

subsection \<open>Streaming\<close>

lemma stream_loop_prefixes:
  "stream_loop acc fs = map (\<lambda>i. YStr (acc @ concat (take (Suc i) fs))) [0..<length fs]"
proof (induction fs arbitrary: acc)
  case Nil
  show ?case by simp
next
  case (Cons f fs)
  have "[0..<length (f # fs)] = 0 # map Suc [0..<length fs]"
    by (simp add: upt_conv_Cons map_Suc_upt del: upt_Suc)
  then show ?case
    by (simp add: Cons.IH comp_def del: upt_Suc)
qed

lemma generate_response_normal_run:
  assumes "retrieve self query = (Inr docs, cs)" and "docs \<noteq> []"
    and "get_num_tokens (ollama_llm self)
           (prompt_template (str_join (nl @ ''-----'' @ nl) docs) query) = Inr n"
    and "stream (ollama_llm self)
           (prompt_template (str_join (nl @ ''-----'' @ nl) docs) query) = (fs, None)"
  shows "generate_response self start_time end_time query =
     \<lparr>yields = stream_loop [] fs @ [YTuple n (format_time (end_time - start_time))],
      outcome = Returned None,
      calls = cs @ [Call_logger_info (prompt_template (str_join (nl @ ''-----'' @ nl) docs) query),
                    Call_get_num_tokens (prompt_template (str_join (nl @ ''-----'' @ nl) docs) query),
                    Call_stream (prompt_template (str_join (nl @ ''-----'' @ nl) docs) query)]\<rparr>"
  using assms by (simp add: generate_response_def Let_def)

text \<open>
  Claim C2. When the retrieval is not empty and the stream of the language model produces
  the fragments \<open>f1, ..., fn\<close> and ends, the caller observes the accumulated prefixes
  \<open>f1\<close>, \<open>f1 + f2\<close>, ..., \<open>f1 + ... + fn\<close> in this order, then exactly one metadata tuple
  and nothing more; the last accumulated string is the concatenation of all fragments.
\<close>

theorem generate_response_yields_prefixes_then_metadata:
  assumes "retrieve self query = (Inr docs, cs)" and "docs \<noteq> []"
    and "get_num_tokens (ollama_llm self)
           (prompt_template (str_join (nl @ ''-----'' @ nl) docs) query) = Inr n"
    and "stream (ollama_llm self)
           (prompt_template (str_join (nl @ ''-----'' @ nl) docs) query) = (fs, None)"
  shows "yields (generate_response self start_time end_time query) =
           map (\<lambda>i. YStr (concat (take (Suc i) fs))) [0..<length fs] @
           [YTuple n (format_time (end_time - start_time))] \<and>
         (fs \<noteq> [] \<longrightarrow>
            last (butlast (yields (generate_response self start_time end_time query))) = YStr (concat fs))"
proof -
  let ?texts = "map (\<lambda>i. YStr (concat (take (Suc i) fs))) [0..<length fs]"
  have y: "yields (generate_response self start_time end_time query) =
      ?texts @ [YTuple n (format_time (end_time - start_time))]"
    using generate_response_normal_run [OF assms, of start_time end_time]
    by (simp add: stream_loop_prefixes)
  have "last ?texts = YStr (concat fs)" if "fs \<noteq> []"
    using that by (simp add: last_map del: upt_Suc)
  with y show ?thesis by (simp del: upt_Suc)
qed

lemma example_retrieve:
  "retrieve (example_system docs) q =
     (Inr docs, [Call_embed_query q, Call_collection_query [length q] 5])"
  by (simp add: retrieve_def example_system_def)

lemma example_get_num_tokens:
  "get_num_tokens (ollama_llm (example_system docs)) p = Inr (int (length p))"
  by (simp add: example_system_def example_llm_def)

lemma example_stream:
  "stream (ollama_llm (example_system docs)) p = ([''<think>a'', ''</think> b'', ''c''], None)"
  by (simp add: example_system_def example_llm_def)

lemma format_time_125: "format_time 125 = ''2m 5s''"
  by (simp add: format_time_def py_floordiv_def py_mod_def py_int_def str_int_def
      str_nat.simps digit_char_def)

text \<open>The run of the concrete system on two passages, with 125 seconds on the clock.\<close>

theorem generate_response_yields_prefixes_then_metadata_witness:
  "retrieve (example_system [''P1'', ''P2'']) ''hi'' =
     (Inr [''P1'', ''P2''], [Call_embed_query ''hi'', Call_collection_query [2] 5]) \<and>
   [''P1'', ''P2''] \<noteq> [] \<and>
   yields (generate_response (example_system [''P1'', ''P2'']) 0 125 ''hi'') =
     [YStr ''<think>a'', YStr ''<think>a</think> b'', YStr ''<think>a</think> bc'',
      YTuple 626 ''2m 5s''] \<and>
   last (butlast (yields (generate_response (example_system [''P1'', ''P2'']) 0 125 ''hi''))) =
     YStr ''<think>a</think> bc''"
proof -
  have e: "[0..<3] = [0, 1, 2]" by (simp add: upt_rec)
  show ?thesis
    using generate_response_yields_prefixes_then_metadata
      [where start_time = 0 and end_time = 125,
       OF example_retrieve [of "[''P1'', ''P2'']" "''hi''"] _
          example_get_num_tokens example_stream]
    by (simp add: example_retrieve format_time_125 e prompt_template_def nl_def dq_def tq_def)
qed

subsection \<open>Text updates and the metadata record\<close>

lemma filter_str_stream_loop: "filter isinstance_str (stream_loop acc fs) = stream_loop acc fs"
  by (induction fs arbitrary: acc) simp_all

lemma filter_tuple_stream_loop: "filter isinstance_tuple (stream_loop acc fs) = []"
  by (induction fs arbitrary: acc) simp_all

lemma generate_response_yields_shape:
  "\<exists>fs rest. yields (generate_response self start_time end_time query) = stream_loop [] fs @ rest \<and>
     (rest = [] \<or> (\<exists>n t. rest = [YTuple n t]))"
proof (cases "retrieve self query")
  case (Pair res cs)
  show ?thesis
  proof (cases res)
    case (Inl e)
    with Pair have "yields (generate_response self start_time end_time query) = stream_loop [] [] @ []"
      by (simp add: generate_response_def)
    then show ?thesis by blast
  next
    case (Inr docs)
    show ?thesis
    proof (cases "docs = []")
      case True
      with Pair Inr
      have "yields (generate_response self start_time end_time query) = stream_loop [] [] @ []"
        by (simp add: generate_response_def)
      then show ?thesis by blast
    next
      case False
      let ?p = "prompt_template (str_join (nl @ ''-----'' @ nl) docs) query"
      show ?thesis
      proof (cases "get_num_tokens (ollama_llm self) ?p")
        case (Inl e)
        with Pair Inr False
        have "yields (generate_response self start_time end_time query) = stream_loop [] [] @ []"
          by (simp add: generate_response_def Let_def)
        then show ?thesis by blast
      next
        case tc: (Inr n)
        obtain fs err where st: "stream (ollama_llm self) ?p = (fs, err)"
          by (cases "stream (ollama_llm self) ?p")
        show ?thesis
        proof (cases err)
          case None
          with Pair Inr False tc st
          have "yields (generate_response self start_time end_time query) =
              stream_loop [] fs @ [YTuple n (format_time (end_time - start_time))]"
            by (simp add: generate_response_def Let_def)
          then show ?thesis by blast
        next
          case (Some e)
          with Pair Inr False tc st
          have "yields (generate_response self start_time end_time query) = stream_loop [] fs @ []"
            by (simp add: generate_response_def Let_def)
          then show ?thesis by blast
        qed
      qed
    qed
  qed
qed

lemma for_loop_ui:
  "ui (for_loop ys s) =
     ui s @ map (\<lambda>v. Placeholder_markdown (the_str v)) (filter isinstance_str ys)"
proof (induction ys arbitrary: s)
  case Nil
  show ?case by simp
next
  case (Cons y ys)
  show ?case by (cases y) (simp_all add: Cons.IH)
qed

lemma for_loop_metadata:
  "metadata (for_loop ys s) =
     (if filter isinstance_tuple ys = [] then metadata s
      else Some (token_count_of (last (filter isinstance_tuple ys)),
                 time_of (last (filter isinstance_tuple ys))))"
proof (induction ys arbitrary: s)
  case Nil
  show ?case by simp
next
  case (Cons y ys)
  show ?case by (cases y) (simp_all add: Cons.IH)
qed

lemma for_loop_streamed_response:
  "streamed_response (for_loop ys s) =
     (if filter isinstance_str ys = [] then streamed_response s
      else the_str (last (filter isinstance_str ys)))"
proof (induction ys arbitrary: s)
  case Nil
  show ?case by simp
next
  case (Cons y ys)
  show ?case by (cases y) (simp_all add: Cons.IH)
qed

text \<open>
  Claim C3. Every value that \<open>generate_response\<close> yields is a string or a tuple and never
  both; the strings come first and at most one tuple ends the sequence. The type test of
  the consumer separates them: the loop of the script renders exactly the strings, as
  they are, and takes the token count and the time from the tuple only.
\<close>

theorem text_updates_and_metadata_separated:
  "(\<forall>v \<in> set (yields (generate_response self start_time end_time query)).
      isinstance_str v \<noteq> isinstance_tuple v) \<and>
   filter isinstance_str (yields (generate_response self start_time end_time query)) @
   filter isinstance_tuple (yields (generate_response self start_time end_time query)) =
     yields (generate_response self start_time end_time query) \<and>
   length (filter isinstance_tuple (yields (generate_response self start_time end_time query))) \<le> 1 \<and>
   ui (for_loop (yields (generate_response self start_time end_time query)) s) =
     ui s @ map (\<lambda>v. Placeholder_markdown (the_str v))
              (filter isinstance_str (yields (generate_response self start_time end_time query))) \<and>
   metadata (for_loop (yields (generate_response self start_time end_time query)) s) =
     (if filter isinstance_tuple (yields (generate_response self start_time end_time query)) = []
      then metadata s
      else Some
        (token_count_of (last (filter isinstance_tuple
           (yields (generate_response self start_time end_time query)))),
         time_of (last (filter isinstance_tuple
           (yields (generate_response self start_time end_time query))))))"
proof -
  let ?ys = "yields (generate_response self start_time end_time query)"
  obtain fs rest where shape: "?ys = stream_loop [] fs @ rest"
    and rest: "rest = [] \<or> (\<exists>n t. rest = [YTuple n t])"
    using generate_response_yields_shape [of self start_time end_time query] by blast
  have a: "\<forall>v \<in> set ?ys. isinstance_str v \<noteq> isinstance_tuple v"
  proof
    fix v show "isinstance_str v \<noteq> isinstance_tuple v" by (cases v) simp_all
  qed
  have b: "filter isinstance_str ?ys @ filter isinstance_tuple ?ys = ?ys"
    using rest by (auto simp: shape filter_str_stream_loop filter_tuple_stream_loop)
  have c: "length (filter isinstance_tuple ?ys) \<le> 1"
    using rest by (auto simp: shape filter_tuple_stream_loop)
  show ?thesis
    using a b c for_loop_ui [of ?ys s] for_loop_metadata [of ?ys s] by simp
qed

lemma example_run_yields:
  "yields (generate_response (example_system [''P1'', ''P2'']) 0 125 ''hi'') =
     [YStr ''<think>a'', YStr ''<think>a</think> b'', YStr ''<think>a</think> bc'',
      YTuple 626 ''2m 5s'']"
  using generate_response_normal_run
      [where start_time = 0 and end_time = 125,
       OF example_retrieve [of "[''P1'', ''P2'']" "''hi''"] _
          example_get_num_tokens example_stream]
  by (simp add: format_time_125 prompt_template_def nl_def dq_def tq_def)

text \<open>On the concrete run the three strings are rendered and the tuple becomes the metadata.\<close>

theorem text_updates_and_metadata_separated_witness:
  "YTuple 626 ''2m 5s'' \<in> set (yields (generate_response (example_system [''P1'', ''P2'']) 0 125 ''hi'')) \<and>
   YStr ''<think>a'' \<in> set (yields (generate_response (example_system [''P1'', ''P2'']) 0 125 ''hi'')) \<and>
   isinstance_str (YStr ''<think>a'') \<noteq> isinstance_tuple (YStr ''<think>a'') \<and>
   isinstance_str (YTuple 626 ''2m 5s'') \<noteq> isinstance_tuple (YTuple 626 ''2m 5s'') \<and>
   ui (for_loop (yields (generate_response (example_system [''P1'', ''P2'']) 0 125 ''hi''))
         \<lparr>streamed_response = [], metadata = None, ui = []\<rparr>) =
     [Placeholder_markdown ''<think>a'', Placeholder_markdown ''<think>a</think> b'',
      Placeholder_markdown ''<think>a</think> bc''] \<and>
   metadata (for_loop (yields (generate_response (example_system [''P1'', ''P2'']) 0 125 ''hi''))
         \<lparr>streamed_response = [], metadata = None, ui = []\<rparr>) = Some (626, ''2m 5s'')"
  using text_updates_and_metadata_separated
      [of "example_system [''P1'', ''P2'']" 0 125 "''hi''"
          "\<lparr>streamed_response = [], metadata = None, ui = []\<rparr>"]
  by (simp add: example_run_yields)

subsection \<open>Failure of the embedding model\<close>

text \<open>
  Claim C5. If the embedding model raises while the query is embedded, the answer
  operation ends with that exception: \<open>_retrieve\<close> returns no list at all, no call is made
  after the failed one, the run does not end with the fallback string of the empty
  context, and the script stores the message of the exception.
\<close>

theorem embedding_failure_propagates:
  assumes "embedding_model self query = Inl e"
  shows "retrieve self query = (Inl e, [Call_embed_query query]) \<and>
         generate_response self start_time end_time query =
           \<lparr>yields = [], outcome = Raised e, calls = [Call_embed_query query]\<rparr> \<and>
         outcome (generate_response self start_time end_time query) \<noteq>
           Returned (Some ''No relevant information found.'') \<and>
         assistant_block (generate_response self start_time end_time query) =
           [Messages_append ''assistant'' (''Error: '' @ str_error e), St_rerun]"
proof -
  have r: "retrieve self query = (Inl e, [Call_embed_query query])"
    using assms by (simp add: retrieve_def)
  then have g: "generate_response self start_time end_time query =
      \<lparr>yields = [], outcome = Raised e, calls = [Call_embed_query query]\<rparr>"
    by (simp add: generate_response_def)
  show ?thesis
    unfolding g using r by (simp add: assistant_block_def)
qed

text \<open>The system whose embedding model refuses the connection.\<close>

theorem embedding_failure_propagates_witness:
  "embedding_model unreachable_embedding_system ''hi'' = Inl (LibraryError ''connection refused'') \<and>
   generate_response unreachable_embedding_system 0 1 ''hi'' =
     \<lparr>yields = [], outcome = Raised (LibraryError ''connection refused''),
      calls = [Call_embed_query ''hi'']\<rparr> \<and>
   assistant_block (generate_response unreachable_embedding_system 0 1 ''hi'') =
     [Messages_append ''assistant'' ''Error: connection refused'', St_rerun]"
proof -
  have h: "embedding_model unreachable_embedding_system ''hi'' =
      Inl (LibraryError ''connection refused'')"
    by (simp add: unreachable_embedding_system_def)
  note t = embedding_failure_propagates [OF h, of 0 1]
  have a: "generate_response unreachable_embedding_system 0 1 ''hi'' =
     \<lparr>yields = [], outcome = Raised (LibraryError ''connection refused''),
      calls = [Call_embed_query ''hi'']\<rparr>"
    using t by (rule conjunct2 [THEN conjunct1])
  have b: "assistant_block (generate_response unreachable_embedding_system 0 1 ''hi'') =
     [Messages_append ''assistant'' ''Error: connection refused'', St_rerun]"
    using t [THEN conjunct2, THEN conjunct2, THEN conjunct2] by simp
  show ?thesis
    by (rule conjI [OF h conjI [OF a b]])
qed

subsection \<open>Construction\<close>

text \<open>
  Claim C8. Constructing a \<open>RAGSystem\<close> with an empty collection name fails at
  construction: the result is an exception, the only call made is the constructor of
  the language-model client (once; no client of the store is created and no collection is
  created or opened, and nothing is tried again), and whenever that client was built the
  exception is the \<open>ValueError\<close> saying that the parameter is required.
\<close>

theorem empty_collection_name_rejected:
  "isl (fst (RAGSystem_init w [] dbp ollama_model n)) \<and>
   snd (RAGSystem_init w [] dbp ollama_model n) = [Init_OllamaLLM ollama_model] \<and>
   (\<forall>l. OllamaLLM w ollama_model = Inr l \<longrightarrow>
      fst (RAGSystem_init w [] dbp ollama_model n) =
        Inl (ValueError (CHR 0x27 # ''collection_name'' @ CHR 0x27 # '' parameter is required.'')))"
  by (cases "OllamaLLM w ollama_model") (simp_all add: RAGSystem_init_def)

text \<open>In a world where every constructor succeeds the empty name gives the \<open>ValueError\<close>.\<close>

theorem empty_collection_name_rejected_witness:
  "OllamaLLM example_world ''deepseek-r1:7b'' = Inr example_llm \<and>
   RAGSystem_init example_world [] ''chroma_db'' ''deepseek-r1:7b'' 5 =
     (Inl (ValueError (CHR 0x27 # ''collection_name'' @ CHR 0x27 # '' parameter is required.'')),
      [Init_OllamaLLM ''deepseek-r1:7b''])"
proof -
  have h: "OllamaLLM example_world ''deepseek-r1:7b'' = Inr example_llm"
    by (simp add: example_world_def)
  show ?thesis
    using h empty_collection_name_rejected [of example_world "''chroma_db''" "''deepseek-r1:7b''" 5]
    by (simp add: prod_eq_iff)
qed

text \<open>With the name used by the script the constructor goes on to open the collection.\<close>

lemma nonempty_collection_name_opens_collection:
  "snd (RAGSystem_init example_world ''pdf_content'' ''PDF_chroma_db'' ''deepseek-r1:7b'' 5) =
     [Init_OllamaLLM ''deepseek-r1:7b'', Init_setup_logging,
      Init_OllamaEmbeddings ''mxbai-embed-large:latest'', Init_PersistentClient ''PDF_chroma_db'',
      Init_get_or_create_collection ''pdf_content'',
      Init_logger_info ''*** RAGSystem initialized ***'']"
  by (simp add: RAGSystem_init_def example_world_def)

subsection \<open>Empty retrieval\<close>

text \<open>
  Claim C1. On an empty retrieval the answer operation should hand the string
  \<open>No relevant information found.\<close> to its caller without calling the language model. The
  run on the concrete system with no passages shows what happens instead: the language
  model is not called, but the string is only the return value of the generator, nothing
  is yielded, and the script, which never received the metadata tuple, stores the message
  of a \<open>NameError\<close>.
\<close>

theorem empty_retrieval_answer_not_delivered:
  "generate_response (example_system []) 0 1 ''hello'' =
     \<lparr>yields = [], outcome = Returned (Some ''No relevant information found.''),
      calls = [Call_embed_query ''hello'', Call_collection_query [5] 5]\<rparr> \<and>
   assistant_block (generate_response (example_system []) 0 1 ''hello'') =
     [Messages_append ''assistant'' ''Error: name 'token_count' is not defined'', St_rerun]"
proof -
  have g: "generate_response (example_system []) 0 1 ''hello'' =
     \<lparr>yields = [], outcome = Returned (Some ''No relevant information found.''),
      calls = [Call_embed_query ''hello'', Call_collection_query [5] 5]\<rparr>"
    by (simp add: generate_response_def example_retrieve)
  show ?thesis
    unfolding g by (simp add: assistant_block_def)
qed

text \<open>The same for every system: nothing is yielded and only the retrieval calls are made.\<close>

lemma empty_retrieval_run:
  assumes "retrieve self query = (Inr [], cs)"
  shows "generate_response self start_time end_time query =
     \<lparr>yields = [], outcome = Returned (Some ''No relevant information found.''), calls = cs\<rparr>"
    and "set cs \<subseteq> {Call_embed_query query} \<union> range (\<lambda>v. Call_collection_query [v] (n_results self))"
  using assms
  by (auto simp: generate_response_def retrieve_def split: sum.splits option.splits list.splits)

subsection \<open>Post-processing of the answer\<close>

lemma stream_loop_eq_Nil: "stream_loop acc fs = [] \<longleftrightarrow> fs = []"
  by (cases fs) simp_all

lemma last_stream_loop: "fs \<noteq> [] \<Longrightarrow> last (stream_loop acc fs) = YStr (acc @ concat fs)"
  by (induction fs arbitrary: acc) (auto simp: stream_loop_eq_Nil)

text \<open>
  Whatever the run, the script renders the yielded strings as they are, and only those.
\<close>

lemma assistant_block_renders_yielded_strings:
  "\<exists>rest. assistant_block r =
      map (\<lambda>v. Placeholder_markdown (the_str v)) (filter isinstance_str (yields r)) @ rest \<and>
      (\<forall>c \<in> set rest. \<forall>s. c \<noteq> Placeholder_markdown s)"
  by (cases "outcome r")
     (auto simp: assistant_block_def Let_def for_loop_ui split: option.splits)

text \<open>
  Claim C9. The removal of the reasoning block is applied only to the final accumulated
  string, after the stream has ended: each update rendered during streaming is the
  accumulated prefix itself, and \<open>remove_tags\<close> occurs once, on the concatenation of all
  fragments, in the message stored at the end.
\<close>

theorem tags_removed_from_final_string_only:
  assumes "retrieve self query = (Inr docs, cs)" and "docs \<noteq> []"
    and "get_num_tokens (ollama_llm self)
           (prompt_template (str_join (nl @ ''-----'' @ nl) docs) query) = Inr n"
    and "stream (ollama_llm self)
           (prompt_template (str_join (nl @ ''-----'' @ nl) docs) query) = (fs, None)"
  shows "assistant_block (generate_response self start_time end_time query) =
           map (\<lambda>i. Placeholder_markdown (concat (take (Suc i) fs))) [0..<length fs] @
           [St_write (''Token Count: '' @ str_int n @ '', Response Time: '' @
                      format_time (end_time - start_time)),
            Messages_append ''assistant''
              (response_template (remove_tags (concat fs)) n
                 (format_time (end_time - start_time)))]"
proof -
  let ?t = "format_time (end_time - start_time)"
  let ?ys = "stream_loop [] fs @ [YTuple n ?t]"
  let ?s0 = "\<lparr>streamed_response = [], metadata = None, ui = []\<rparr>"
  have run: "generate_response self start_time end_time query =
      \<lparr>yields = ?ys, outcome = Returned None,
       calls = cs @ [Call_logger_info (prompt_template (str_join (nl @ ''-----'' @ nl) docs) query),
                     Call_get_num_tokens (prompt_template (str_join (nl @ ''-----'' @ nl) docs) query),
                     Call_stream (prompt_template (str_join (nl @ ''-----'' @ nl) docs) query)]\<rparr>"
    by (rule generate_response_normal_run [OF assms])
  have fstr: "filter isinstance_str ?ys = stream_loop [] fs"
    by (simp add: filter_str_stream_loop)
  have ftup: "filter isinstance_tuple ?ys = [YTuple n ?t]"
    by (simp add: filter_tuple_stream_loop)
  have u: "ui (for_loop ?ys ?s0) =
      map (\<lambda>i. Placeholder_markdown (concat (take (Suc i) fs))) [0..<length fs]"
    unfolding for_loop_ui fstr by (simp add: stream_loop_prefixes comp_def del: upt_Suc)
  have m: "metadata (for_loop ?ys ?s0) = Some (n, ?t)"
    unfolding for_loop_metadata ftup by simp
  have sr: "streamed_response (for_loop ?ys ?s0) = concat fs"
    unfolding for_loop_streamed_response fstr
    by (cases "fs = []") (simp_all add: stream_loop_eq_Nil last_stream_loop)
  show ?thesis
    unfolding run by (simp add: assistant_block_def Let_def u m sr del: upt_Suc)
qed

lemma remove_tags_example: "remove_tags ''<think>a</think> bc'' = ''bc''"
  by (simp add: remove_tags_def strip_def isspace_def)

text \<open>
  On the concrete run the reasoning block is still in all three rendered updates, and the
  stored message holds the text without it.
\<close>

theorem tags_removed_from_final_string_only_witness:
  "retrieve (example_system [''P1'', ''P2'']) ''hi'' =
     (Inr [''P1'', ''P2''], [Call_embed_query ''hi'', Call_collection_query [2] 5]) \<and>
   [''P1'', ''P2''] \<noteq> [] \<and>
   assistant_block (generate_response (example_system [''P1'', ''P2'']) 0 125 ''hi'') =
     [Placeholder_markdown ''<think>a'',
      Placeholder_markdown ''<think>a</think> b'',
      Placeholder_markdown ''<think>a</think> bc'',
      St_write ''Token Count: 626, Response Time: 2m 5s'',
      Messages_append ''assistant'' (response_template ''bc'' 626 ''2m 5s'')]"
proof -
  have e: "[0..<3] = [0, 1, 2]" by (simp add: upt_rec)
  have n: "str_int 626 = ''626''"
    by (simp add: str_int_def str_nat.simps digit_char_def)
  show ?thesis
    using tags_removed_from_final_string_only
      [where start_time = 0 and end_time = 125,
       OF example_retrieve [of "[''P1'', ''P2'']" "''hi''"] _
          example_get_num_tokens example_stream]
    by (simp add: example_retrieve format_time_125 e n remove_tags_example
        prompt_template_def nl_def dq_def tq_def)
qed

subsection \<open>The assembled prompt\<close>

lemma sublist_str_join: "d \<in> set docs \<Longrightarrow> sublist d (str_join sep docs)"
proof (induction sep docs rule: str_join.induct)
  case (1 sep)
  then show ?case by simp
next
  case (2 sep x)
  then show ?case by simp
next
  case (3 sep x y ys)
  show ?case
  proof (cases "d = x")
    case True
    then show ?thesis by (simp add: sublist_append_rightI)
  next
    case False
    with 3 have "sublist d (str_join sep (y # ys))" by simp
    then have "sublist d ((x @ sep) @ str_join sep (y # ys))"
      by (simp add: sublist_append)
    then show ?thesis by simp
  qed
qed

lemma retrieve_calls:
  "c \<in> set (snd (retrieve self query)) \<Longrightarrow>
     c = Call_embed_query query \<or> (\<exists>v. c = Call_collection_query [v] (n_results self))"
  by (auto simp: retrieve_def split: sum.splits)

lemma generate_response_calls_nonempty:
  assumes "retrieve self query = (Inr docs, cs)" and "docs \<noteq> []"
  shows "\<exists>rest. calls (generate_response self start_time end_time query) =
      cs @ Call_logger_info (prompt_template (str_join (nl @ ''-----'' @ nl) docs) query) # rest \<and>
      set rest \<subseteq> {Call_get_num_tokens (prompt_template (str_join (nl @ ''-----'' @ nl) docs) query),
                   Call_stream (prompt_template (str_join (nl @ ''-----'' @ nl) docs) query)}"
  using assms
  by (auto simp: generate_response_def Let_def split: sum.splits option.splits prod.splits)

text \<open>The sections of the prompt, with the context as the code computes it.\<close>

lemma prompt_sections:
  assumes "retrieve self query = (Inr docs, cs)" and "docs \<noteq> []"
    and "p = prompt_template (str_join (nl @ ''-----'' @ nl) docs) query"
  shows "Call_logger_info p \<in> set (calls (generate_response self start_time end_time query)) \<and>
     (\<forall>p'. Call_get_num_tokens p' \<in> set (calls (generate_response self start_time end_time query)) \<or>
           Call_stream p' \<in> set (calls (generate_response self start_time end_time query))
        \<longrightarrow> p' = p) \<and>
     (\<exists>a b c d. p =
        a @
        (''### **Context:**  '' @ nl @
         ''        '' @ tq @ ''  '' @ nl @
         ''        '' @ str_join (nl @ ''-----'' @ nl) docs @ ''  '' @ nl @
         ''        '' @ tq) @
        b @
        (''### **Question:**  '' @ nl @
         ''        '' @ dq @ query @ dq) @
        c @
        (''### **Instructions:**  '' @ nl @
         ''        - Answer concisely and accurately using only the given context.  '' @ nl @
         ''        - Put what you find from the context without summarizing.'' @ nl @
         ''        - If the answer is unclear or missing, state: '' @ dq @
           ''The provided context does not contain enough information.'' @ dq) @
        d) \<and>
     sublist ''The provided context does not contain enough information.'' p \<and>
     sublist query p \<and>
     sublist (str_join (nl @ ''-----'' @ nl) docs) p \<and>
     (\<forall>d \<in> set docs. sublist d p)"
proof -
  let ?ctx = "str_join (nl @ ''-----'' @ nl) docs"
  let ?r = "generate_response self start_time end_time query"
  obtain rest where calls: "calls ?r = cs @ Call_logger_info p # rest"
    and rest: "set rest \<subseteq> {Call_get_num_tokens p, Call_stream p}"
    using generate_response_calls_nonempty [OF assms(1,2), of start_time end_time]
    unfolding assms(3) by blast
  have cs: "\<And>c. c \<in> set cs \<Longrightarrow>
      c = Call_embed_query query \<or> (\<exists>v. c = Call_collection_query [v] (n_results self))"
    using retrieve_calls [of _ self query] assms(1) by simp
  have logged: "Call_logger_info p \<in> set (calls ?r)"
    by (simp add: calls)
  have only: "\<forall>p'. Call_get_num_tokens p' \<in> set (calls ?r) \<or> Call_stream p' \<in> set (calls ?r)
      \<longrightarrow> p' = p"
    using rest cs by (auto simp: calls)
  have decomp: "\<exists>a b c d. p =
        a @
        (''### **Context:**  '' @ nl @
         ''        '' @ tq @ ''  '' @ nl @
         ''        '' @ ?ctx @ ''  '' @ nl @
         ''        '' @ tq) @
        b @
        (''### **Question:**  '' @ nl @
         ''        '' @ dq @ query @ dq) @
        c @
        (''### **Instructions:**  '' @ nl @
         ''        - Answer concisely and accurately using only the given context.  '' @ nl @
         ''        - Put what you find from the context without summarizing.'' @ nl @
         ''        - If the answer is unclear or missing, state: '' @ dq @
           ''The provided context does not contain enough information.'' @ dq) @
        d"
  proof (intro exI)
    show "p =
        (nl @
         ''        You are an AI assistant specialized in answering questions based **only** on the provided context.  '' @ nl @
         ''        The context is structured with sections separated by `-----`.  '' @ nl @
         nl @ ''        '') @
        (''### **Context:**  '' @ nl @
         ''        '' @ tq @ ''  '' @ nl @
         ''        '' @ ?ctx @ ''  '' @ nl @
         ''        '' @ tq) @
        (''  '' @ nl @ nl @ ''        '') @
        (''### **Question:**  '' @ nl @
         ''        '' @ dq @ query @ dq) @
        (''  '' @ nl @ nl @ ''        '') @
        (''### **Instructions:**  '' @ nl @
         ''        - Answer concisely and accurately using only the given context.  '' @ nl @
         ''        - Put what you find from the context without summarizing.'' @ nl @
         ''        - If the answer is unclear or missing, state: '' @ dq @
           ''The provided context does not contain enough information.'' @ dq) @
        (''  '' @ nl @ nl @ ''        ### **Answer:**'' @ nl @ ''        '')"
      unfolding assms(3) prompt_template_def by simp
  qed
  have fb: "sublist ''The provided context does not contain enough information.'' p"
    unfolding sublist_def
  proof (intro exI)
    show "p =
      (nl @
       ''        You are an AI assistant specialized in answering questions based **only** on the provided context.  '' @ nl @
       ''        The context is structured with sections separated by `-----`.  '' @ nl @
       nl @
       ''        ### **Context:**  '' @ nl @
       ''        '' @ tq @ ''  '' @ nl @
       ''        '' @ ?ctx @ ''  '' @ nl @
       ''        '' @ tq @ ''  '' @ nl @
       nl @
       ''        ### **Question:**  '' @ nl @
       ''        '' @ dq @ query @ dq @ ''  '' @ nl @
       nl @
       ''        ### **Instructions:**  '' @ nl @
       ''        - Answer concisely and accurately using only the given context.  '' @ nl @
       ''        - Put what you find from the context without summarizing.'' @ nl @
       ''        - If the answer is unclear or missing, state: '' @ dq) @
      ''The provided context does not contain enough information.'' @
      (dq @ ''  '' @ nl @ nl @ ''        ### **Answer:**'' @ nl @ ''        '')"
      unfolding assms(3) prompt_template_def by simp
  qed
  have q: "sublist query p"
    unfolding sublist_def
  proof (intro exI)
    show "p =
      (nl @
       ''        You are an AI assistant specialized in answering questions based **only** on the provided context.  '' @ nl @
       ''        The context is structured with sections separated by `-----`.  '' @ nl @
       nl @
       ''        ### **Context:**  '' @ nl @
       ''        '' @ tq @ ''  '' @ nl @
       ''        '' @ ?ctx @ ''  '' @ nl @
       ''        '' @ tq @ ''  '' @ nl @
       nl @
       ''        ### **Question:**  '' @ nl @
       ''        '' @ dq) @
      query @
      (dq @ ''  '' @ nl @
       nl @
       ''        ### **Instructions:**  '' @ nl @
       ''        - Answer concisely and accurately using only the given context.  '' @ nl @
       ''        - Put what you find from the context without summarizing.'' @ nl @
       ''        - If the answer is unclear or missing, state: '' @ dq @
       ''The provided context does not contain enough information.'' @
       dq @ ''  '' @ nl @ nl @ ''        ### **Answer:**'' @ nl @ ''        '')"
      unfolding assms(3) prompt_template_def by simp
  qed
  have ctx: "sublist ?ctx p"
    unfolding sublist_def
  proof (intro exI)
    show "p =
      (nl @
       ''        You are an AI assistant specialized in answering questions based **only** on the provided context.  '' @ nl @
       ''        The context is structured with sections separated by `-----`.  '' @ nl @
       nl @
       ''        ### **Context:**  '' @ nl @
       ''        '' @ tq @ ''  '' @ nl @
       ''        '') @
      ?ctx @
      (''  '' @ nl @
       ''        '' @ tq @ ''  '' @ nl @
       nl @
       ''        ### **Question:**  '' @ nl @
       ''        '' @ dq @ query @ dq @ ''  '' @ nl @
       nl @
       ''        ### **Instructions:**  '' @ nl @
       ''        - Answer concisely and accurately using only the given context.  '' @ nl @
       ''        - Put what you find from the context without summarizing.'' @ nl @
       ''        - If the answer is unclear or missing, state: '' @ dq @
       ''The provided context does not contain enough information.'' @
       dq @ ''  '' @ nl @ nl @ ''        ### **Answer:**'' @ nl @ ''        '')"
      unfolding assms(3) prompt_template_def by simp
  qed
  have each: "\<forall>d \<in> set docs. sublist d p"
    using ctx sublist_str_join [of _ docs "nl @ ''-----'' @ nl"] sublist_order.order_trans
    by blast
  from logged only decomp fb q ctx each show ?thesis by blast
qed

text \<open>What \<open>join\<close> computes on a non-empty list, written out.\<close>

lemma str_join_delimited:
  "docs \<noteq> [] \<Longrightarrow> str_join sep docs = hd docs @ concat (map (\<lambda>d. sep @ d) (tl docs))"
  by (induction sep docs rule: str_join.induct) simp_all

text \<open>
  Claim C4. For a non-empty list of retrieved passages and any query, the assembled prompt
  (the one that is logged, and the only one passed to the language model) holds, in this
  order, the Context section with the passages joined by the line of dashes (the first
  passage, then each further passage behind a newline, five dashes and a newline), the
  Question section with the query between double quotes, and the instruction block with
  the sentence \<open>The provided context does not contain enough information.\<close>; every
  passage and the query occur in it unchanged.
\<close>

theorem prompt_holds_context_question_instructions:
  assumes "retrieve self query = (Inr docs, cs)" and "docs \<noteq> []"
    and "p = prompt_template (str_join (nl @ ''-----'' @ nl) docs) query"
  shows "Call_logger_info p \<in> set (calls (generate_response self start_time end_time query)) \<and>
     (\<forall>p'. Call_get_num_tokens p' \<in> set (calls (generate_response self start_time end_time query)) \<or>
           Call_stream p' \<in> set (calls (generate_response self start_time end_time query))
        \<longrightarrow> p' = p) \<and>
     (\<exists>a b c d. p =
        a @
        (''### **Context:**  '' @ [CHR 0x0A] @
         ''        '' @ [CHR 0x27, CHR 0x27, CHR 0x27] @ ''  '' @ [CHR 0x0A] @
         ''        '' @
         (hd docs @ concat (map (\<lambda>d. [CHR 0x0A] @ ''-----'' @ [CHR 0x0A] @ d) (tl docs))) @
         ''  '' @ [CHR 0x0A] @
         ''        '' @ [CHR 0x27, CHR 0x27, CHR 0x27]) @
        b @
        (''### **Question:**  '' @ [CHR 0x0A] @
         ''        '' @ [CHR 0x22] @ query @ [CHR 0x22]) @
        c @
        (''### **Instructions:**  '' @ [CHR 0x0A] @
         ''        - Answer concisely and accurately using only the given context.  '' @ [CHR 0x0A] @
         ''        - Put what you find from the context without summarizing.'' @ [CHR 0x0A] @
         ''        - If the answer is unclear or missing, state: '' @ [CHR 0x22] @
           ''The provided context does not contain enough information.'' @ [CHR 0x22]) @
        d) \<and>
     sublist ''The provided context does not contain enough information.'' p \<and>
     sublist query p \<and>
     sublist (hd docs @ concat (map (\<lambda>d. [CHR 0x0A] @ ''-----'' @ [CHR 0x0A] @ d) (tl docs))) p \<and>
     (\<forall>d \<in> set docs. sublist d p)"
proof -
  have j: "str_join ([CHR 0x0A] @ ''-----'' @ [CHR 0x0A]) docs =
      hd docs @ concat (map (\<lambda>d. [CHR 0x0A] @ ''-----'' @ [CHR 0x0A] @ d) (tl docs))"
    using str_join_delimited [OF assms(2), of "[CHR 0x0A] @ ''-----'' @ [CHR 0x0A]"]
    by (simp only: append_assoc)
  show ?thesis
    by (rule prompt_sections
        [OF assms, of start_time end_time, unfolded nl_def dq_def tq_def j])
qed

text \<open>
  The prompt for two passages and the query \<open>hi\<close>: the joined context is the first passage, a
  newline, five dashes, a newline and the second passage.
\<close>

theorem prompt_holds_context_question_instructions_witness:
  "retrieve (example_system [''P1'', ''P2'']) ''hi'' =
     (Inr [''P1'', ''P2''], [Call_embed_query ''hi'', Call_collection_query [2] 5]) \<and>
   [''P1'', ''P2''] \<noteq> [] \<and>
   Call_logger_info (prompt_template (str_join (nl @ ''-----'' @ nl) [''P1'', ''P2'']) ''hi'')
     \<in> set (calls (generate_response (example_system [''P1'', ''P2'']) 0 125 ''hi'')) \<and>
   sublist (''P1'' @ [CHR 0x0A] @ ''-----'' @ [CHR 0x0A] @ ''P2'')
     (prompt_template (str_join (nl @ ''-----'' @ nl) [''P1'', ''P2'']) ''hi'') \<and>
   sublist ''hi'' (prompt_template (str_join (nl @ ''-----'' @ nl) [''P1'', ''P2'']) ''hi'')"
proof -
  have r: "retrieve (example_system [''P1'', ''P2'']) ''hi'' =
     (Inr [''P1'', ''P2''], [Call_embed_query ''hi'', Call_collection_query [2] 5])"
    by (simp add: example_retrieve)
  have ne: "[''P1'', ''P2''] \<noteq> ([] :: string list)" by simp
  note t = prompt_holds_context_question_instructions
    [where start_time = 0 and end_time = 125, OF r ne refl]
  have e: "hd [''P1'', ''P2''] @
      concat (map (\<lambda>d. [CHR 0x0A] @ ''-----'' @ [CHR 0x0A] @ d) (tl [''P1'', ''P2''])) =
      ''P1'' @ [CHR 0x0A] @ ''-----'' @ [CHR 0x0A] @ ''P2''"
    by simp
  from r ne t show ?thesis unfolding e by blast
qed

subsection \<open>Retrieval over the store of the specification\<close>

lemma sorted_take_le_drop:
  assumes "sorted (map f xs)" and "p \<in> set (take k xs)" and "q \<in> set (drop k xs)"
  shows "f p \<le> f q"
proof -
  have "sorted (map f (take k xs) @ map f (drop k xs))"
    using assms(1) by (simp flip: map_append)
  with assms(2,3) show ?thesis
    by (auto simp: sorted_append)
qed

lemma store_query_nearest:
  "length (store_query distance chunks v k) = min k (length chunks) \<and>
   sorted (map snd (store_query distance chunks v k)) \<and>
   (\<exists>rest. mset (store_query distance chunks v k @ rest) =
             mset (map (\<lambda>c. (chunk_text c, distance v (chunk_vector c))) chunks) \<and>
           (\<forall>p \<in> set (store_query distance chunks v k). \<forall>q \<in> set rest. snd p \<le> snd q))"
proof -
  let ?all = "sort_key snd (map (\<lambda>c. (chunk_text c, distance v (chunk_vector c))) chunks)"
  have s: "sorted (map snd ?all)" by (rule sorted_sort_key)
  have len: "length (take k ?all) = min k (length chunks)" by simp
  have srt: "sorted (map snd (take k ?all))"
    using s by (simp add: take_map [symmetric] del: take_map)
  have ms: "mset (take k ?all @ drop k ?all) =
      mset (map (\<lambda>c. (chunk_text c, distance v (chunk_vector c))) chunks)"
    by simp
  have le: "\<forall>p \<in> set (take k ?all). \<forall>q \<in> set (drop k ?all). snd p \<le> snd q"
    using sorted_take_le_drop [OF s] by blast
  from len srt ms le show ?thesis
    unfolding store_query_def by blast
qed

text \<open>
  Claim C6. Over the vector store of the specification, whatever chunks it holds, and with
  the configured \<open>n_results = 5\<close>, \<open>_retrieve\<close> returns at most five texts, exactly as many
  as the store holds when these are fewer than five, in ascending order of distance, and
  they are the nearest ones: the chunks left out are at least as far as each one returned.
\<close>

theorem retrieve_returns_nearest_top_k:
  assumes "embedding_model self query = Inr v"
    and "collection self = store_collection distance chunks"
    and "n_results self = 5"
  shows "fst (retrieve self query) = Inr (map fst (store_query distance chunks v 5)) \<and>
     length (map fst (store_query distance chunks v 5)) \<le> 5 \<and>
     (length chunks < 5 \<longrightarrow> length (map fst (store_query distance chunks v 5)) = length chunks) \<and>
     sorted (map snd (store_query distance chunks v 5)) \<and>
     (\<exists>rest. mset (store_query distance chunks v 5 @ rest) =
               mset (map (\<lambda>c. (chunk_text c, distance v (chunk_vector c))) chunks) \<and>
             (\<forall>p \<in> set (store_query distance chunks v 5). \<forall>q \<in> set rest. snd p \<le> snd q))"
proof -
  have "fst (retrieve self query) = Inr (map fst (store_query distance chunks v 5))"
    using assms by (simp add: retrieve_def store_collection_def)
  moreover have "length (map fst (store_query distance chunks v 5)) = min 5 (length chunks)"
    using store_query_nearest [of distance chunks v 5] by simp
  ultimately show ?thesis
    using store_query_nearest [of distance chunks v 5] by simp
qed

text \<open>A store of three chunks: all three come back, the nearest first.\<close>

theorem retrieve_returns_nearest_top_k_witness:
  "embedding_model example_store_system ''hi'' = Inr 2 \<and>
   collection example_store_system = store_collection abs_distance example_chunks \<and>
   n_results example_store_system = 5 \<and>
   length example_chunks < 5 \<and>
   fst (retrieve example_store_system ''hi'') =
     Inr [''It is known for the Eiffel Tower.'', ''The Seine river runs through it.'',
          ''Paris is the capital of France.''] \<and>
   map snd (store_query abs_distance example_chunks 2 5) = [0, 2, 7]"
proof -
  have h1: "embedding_model example_store_system ''hi'' = Inr 2"
    by (simp add: example_store_system_def example_system_def)
  have h2: "collection example_store_system = store_collection abs_distance example_chunks"
    by (simp add: example_store_system_def)
  have h3: "n_results example_store_system = 5"
    by (simp add: example_store_system_def example_system_def)
  have q: "store_query abs_distance example_chunks 2 5 =
      [(''It is known for the Eiffel Tower.'', 0), (''The Seine river runs through it.'', 2),
       (''Paris is the capital of France.'', 7)]"
    by (simp add: store_query_def example_chunks_def abs_distance_def)
  show ?thesis
    using h1 h2 h3 retrieve_returns_nearest_top_k [OF h1 h2 h3]
    by (simp add: q) (simp add: example_chunks_def)
qed

end
